theory Spec2Isabelle
  imports Complex_Main
begin

section \<open>KingFoodMart dashboard (ve\_app.py): aggregation and segmentation engine\<close>

text \<open>
  The embedding follows \<^verbatim>\<open>src/ve_app.py\<close>. A DataFrame is the list of its rows, a row a
  record of its columns. Numbers (BSON int/double, Python int/float) are exact rationals;
  a NaN cell is \<open>None\<close>. Labels keep the source's names in ASCII:
  \<^verbatim>\<open>Thap\<close> (low), \<^verbatim>\<open>Trung_binh\<close> (medium), \<^verbatim>\<open>Cao\<close> (high),
  \<^verbatim>\<open>Khong_xac_dinh\<close> (undefined).
\<close>

subsection \<open>Calendar dates and \<^verbatim>\<open>datetime.strptime(s, '%Y-%m-%d').date()\<close>\<close>

datatype date = Date (year: nat) (month: nat) (day: nat)

text \<open>Python compares dates as the tuples (year, month, day).\<close>

definition date_le :: "date \<Rightarrow> date \<Rightarrow> bool" where
  "date_le a b =
     (year a < year b \<or>
      (year a = year b \<and> (month a < month b \<or> (month a = month b \<and> day a \<le> day b))))"

definition is_digit :: "char \<Rightarrow> bool" where
  "is_digit c = (c \<in> set ''0123456789'')"

definition digit_val :: "char \<Rightarrow> nat" where
  "digit_val c = of_char c - 48"

text \<open>The directive \<^verbatim>\<open>%Y\<close> is the regular expression \<^verbatim>\<open>\d\d\d\d\<close>.\<close>

fun match_Y :: "string \<Rightarrow> (nat \<times> string) option" where
  "match_Y (a # b # c # d # rest) =
     (if is_digit a \<and> is_digit b \<and> is_digit c \<and> is_digit d
      then Some (digit_val a * 1000 + digit_val b * 100 + digit_val c * 10 + digit_val d, rest)
      else None)"
| "match_Y _ = None"

text \<open>
  \<^verbatim>\<open>%m\<close> is \<^verbatim>\<open>1[0-2]|0[1-9]|[1-9]\<close> and \<^verbatim>\<open>%d\<close> is
  \<^verbatim>\<open>3[01]|[12]\d|0[1-9]|[1-9]| [1-9]\<close>. Each function lists the alternatives that match
  a prefix of the text, in the order the regular expression tries them.
\<close>

definition two_chars :: "(char \<Rightarrow> bool) \<Rightarrow> (char \<Rightarrow> bool) \<Rightarrow> string \<Rightarrow> (nat \<times> string) list" where
  "two_chars p q s =
     (case s of
        a # b # rest \<Rightarrow>
          (if p a \<and> q b then [((if is_digit a then digit_val a * 10 else 0) + digit_val b, rest)]
           else [])
      | _ \<Rightarrow> [])"

definition one_char :: "(char \<Rightarrow> bool) \<Rightarrow> string \<Rightarrow> (nat \<times> string) list" where
  "one_char p s = (case s of a # rest \<Rightarrow> (if p a then [(digit_val a, rest)] else []) | _ \<Rightarrow> [])"

definition alts_m :: "string \<Rightarrow> (nat \<times> string) list" where
  "alts_m s =
     two_chars (\<lambda>a. a = CHR ''1'') (\<lambda>b. b \<in> set ''012'') s @
     two_chars (\<lambda>a. a = CHR ''0'') (\<lambda>b. b \<in> set ''123456789'') s @
     one_char (\<lambda>a. a \<in> set ''123456789'') s"

definition alts_d :: "string \<Rightarrow> (nat \<times> string) list" where
  "alts_d s =
     two_chars (\<lambda>a. a = CHR ''3'') (\<lambda>b. b \<in> set ''01'') s @
     two_chars (\<lambda>a. a \<in> set ''12'') is_digit s @
     two_chars (\<lambda>a. a = CHR ''0'') (\<lambda>b. b \<in> set ''123456789'') s @
     one_char (\<lambda>a. a \<in> set ''123456789'') s @
     two_chars (\<lambda>a. a = CHR '' '') (\<lambda>b. b \<in> set ''123456789'') s"

definition after_dash :: "string \<Rightarrow> string list" where
  "after_dash s = (case s of c # rest \<Rightarrow> (if c = CHR ''-'' then [rest] else []) | [] \<Rightarrow> [])"

definition is_leap :: "nat \<Rightarrow> bool" where
  "is_leap y = (y mod 4 = 0 \<and> (0 < y mod 100 \<or> y mod 400 = 0))"

definition days_in_month :: "nat \<Rightarrow> nat \<Rightarrow> nat" where
  "days_in_month y m =
     (if m = 2 then (if is_leap y then 29 else 28)
      else if m \<in> {4, 6, 9, 11} then 30 else 31)"

text \<open>\<^verbatim>\<open>datetime.date(y, m, d)\<close> raises ValueError outside these ranges.\<close>

definition make_date :: "nat \<Rightarrow> nat \<Rightarrow> nat \<Rightarrow> date option" where
  "make_date y m d =
     (if 1 \<le> y \<and> y \<le> 9999 \<and> 1 \<le> m \<and> m \<le> 12 \<and> 1 \<le> d \<and> d \<le> days_in_month y m
      then Some (Date y m d) else None)"

text \<open>
  The regular expression is matched against a prefix of the text (first successful
  path of the backtracking search); text left over after the match raises ValueError
  ("unconverted data remains"), and so does a failed match. \<open>None\<close> is the raise.
\<close>

definition strptime :: "string \<Rightarrow> date option" where
  "strptime s =
     (case match_Y s of
        None \<Rightarrow> None
      | Some (y, r1) \<Rightarrow>
          (case concat (map (\<lambda>r2. concat (map (\<lambda>(m, r3).
                   concat (map (\<lambda>r4. map (\<lambda>(d, r5). (m, d, r5)) (alts_d r4)) (after_dash r3)))
                   (alts_m r2))) (after_dash r1)) of
             [] \<Rightarrow> None
           | (m, d, r5) # _ \<Rightarrow> (if r5 = [] then make_date y m d else None)))"

subsection \<open>Movement entries and the documents of the collection\<close>

text \<open>
  An element of \<^verbatim>\<open>stock_history\<close> is a dict or something else. Of a dict the code reads
  the keys \<^verbatim>\<open>date\<close>, \<^verbatim>\<open>stock_decreased\<close> and \<^verbatim>\<open>stock_increased\<close>; \<open>None\<close> is an
  absent key. The quantities are numbers, as in the data model; a \<^verbatim>\<open>date\<close> that is
  not a string makes \<^verbatim>\<open>strptime\<close> raise as an unparsable string does.
\<close>

datatype entry =
    NotDict
  | Dict (e_date: "string option") (e_stock_decreased: "rat option") (e_stock_increased: "rat option")

text \<open>
  \<^verbatim>\<open>isinstance(entry, dict) and 'date' in entry\<close>, then \<^verbatim>\<open>strptime\<close> under
  \<^verbatim>\<open>try\<close>/\<^verbatim>\<open>except: continue\<close> (lines 136-141 and 241-247).
\<close>

fun entry_date :: "entry \<Rightarrow> date option" where
  "entry_date NotDict = None"
| "entry_date (Dict None _ _) = None"
| "entry_date (Dict (Some s) _ _) = strptime s"

record document =
  doc_id :: string
  doc_name :: "string option"
  doc_category :: "string option"
  doc_price :: "rat option"
  doc_promotion :: "string option"
  doc_stock_history :: "entry list option"

text \<open>What the cursor yields: the fields of \<^verbatim>\<open>$project\<close> and \<^verbatim>\<open>$addFields\<close>.\<close>

record product =
  p_id :: string
  p_name :: "string option"
  p_category :: "string option"
  p_price :: rat
  p_promotion :: "string option"
  p_stock_history :: "entry list"
  p_total_sold :: rat
  p_total_stock_increased :: rat

text \<open>
  Rounding to 0 decimals, ties to the even neighbour: \<^verbatim>\<open>$round\<close> of the pipeline and
  Python's \<^verbatim>\<open>round(x, 0)\<close>.
\<close>

definition round0 :: "rat \<Rightarrow> rat" where
  "round0 x =
     (let f = \<lfloor>x\<rfloor>; d = x - of_int f
      in of_int (if d < 1 / 2 then f else if 1 / 2 < d then f + 1
                 else if even f then f else f + 1))"

text \<open>
  \<^verbatim>\<open>{"$match": {"price": {"$gt": 0, "$lt": 1000000000}}}\<close>: the price of a
  document that passes, \<open>None\<close> for a document that is filtered out (a missing or
  non-numeric price never passes).
\<close>

definition match_stage :: "document \<Rightarrow> rat option" where
  "match_stage d =
     (case doc_price d of
        None \<Rightarrow> None
      | Some p \<Rightarrow> (if 0 < p \<and> p < 1000000000 then Some p else None))"

text \<open>
  \<^verbatim>\<open>{"$max": [{"$ifNull": ["$$entry.stock_decreased", 0]}, 0]}\<close>: the field of an
  element that is not a document is missing.
\<close>

fun sold_of :: "entry \<Rightarrow> rat" where
  "sold_of NotDict = max 0 0"
| "sold_of (Dict _ dec _) = max (case dec of None \<Rightarrow> 0 | Some v \<Rightarrow> v) 0"

fun increased_of :: "entry \<Rightarrow> rat" where
  "increased_of NotDict = max 0 0"
| "increased_of (Dict _ _ inc) = max (case inc of None \<Rightarrow> 0 | Some v \<Rightarrow> v) 0"

text \<open>\<^verbatim>\<open>$project\<close> (lines 88-97) followed by \<^verbatim>\<open>$addFields\<close> (lines 100-119).\<close>

definition project_stage :: "document \<Rightarrow> rat \<Rightarrow> product" where
  "project_stage d matched_price =
     (let history = take 100 (case doc_stock_history d of None \<Rightarrow> [] | Some h \<Rightarrow> h)
      in \<lparr> p_id = doc_id d, p_name = doc_name d, p_category = doc_category d,
           p_price = round0 matched_price, p_promotion = doc_promotion d,
           p_stock_history = history,
           p_total_sold = sum_list (map sold_of history),
           p_total_stock_increased = sum_list (map increased_of history) \<rparr>)"

definition pipeline :: "document list \<Rightarrow> product list" where
  "pipeline docs = List.map_filter (\<lambda>d. map_option (project_stage d) (match_stage d)) docs"

subsection \<open>\<^verbatim>\<open>load_data_optimized\<close>\<close>

datatype segment = Thap | Trung_binh | Cao | Khong_xac_dinh

record product_row =
  rid :: string
  name :: string
  category :: string
  price :: "rat option"
  promotion :: string
  total_sold :: rat
  revenue :: "rat option"
  total_stock_increased :: rat
  stock_revenue :: "rat option"
  stock_history :: "entry list"

definition get_or :: "'a option \<Rightarrow> 'a \<Rightarrow> 'a" where
  "get_or v dflt = (case v of None \<Rightarrow> dflt | Some x \<Rightarrow> x)"

text \<open>The body of the loop over the cursor, lines 130-156.\<close>

definition load_row :: "product \<Rightarrow> product_row" where
  "load_row p =
     (let price = max 1000 (p_price p);
          total_sold = max 0 (p_total_sold p);
          total_stock_increased = max 0 (p_total_stock_increased p);
          stock_history = take 50 (p_stock_history p)
      in \<lparr> rid = p_id p, name = get_or (p_name p) [], category = get_or (p_category p) [],
           price = Some price, promotion = get_or (p_promotion p) [],
           total_sold = round0 total_sold,
           revenue = Some (round0 (price * total_sold)),
           total_stock_increased = round0 total_stock_increased,
           stock_revenue = Some (round0 (price * total_stock_increased)),
           stock_history = stock_history \<rparr>)"

text \<open>The dates added to \<^verbatim>\<open>all_dates\<close> for one product, lines 134-141.\<close>

definition dates_of :: "product \<Rightarrow> date list" where
  "dates_of p = List.map_filter entry_date (take 50 (p_stock_history p))"

fun date_min :: "date \<Rightarrow> date list \<Rightarrow> date" where
  "date_min m [] = m"
| "date_min m (d # ds) = date_min (if date_le m d then m else d) ds"

fun date_max :: "date \<Rightarrow> date list \<Rightarrow> date" where
  "date_max m [] = m"
| "date_max m (d # ds) = date_max (if date_le d m then m else d) ds"

definition load_data_optimized :: "document list \<Rightarrow> product_row list \<times> date \<times> date" where
  "load_data_optimized docs =
     (let cursor = pipeline docs;
          all_data = map load_row cursor;
          all_dates = concat (map dates_of cursor)
      in (case all_dates of
            [] \<Rightarrow> (all_data, Date 2025 3 5, Date 2025 5 25)
          | d # ds \<Rightarrow> (all_data, date_min d ds, date_max d ds)))"

subsection \<open>Column helpers of pandas\<close>

text \<open>The values of the \<^verbatim>\<open>price\<close> column that are not NaN (pandas skips NaN).\<close>

definition prices :: "'a product_row_scheme list \<Rightarrow> rat list" where
  "prices df = List.map_filter price df"

text \<open>
  \<^verbatim>\<open>Series.quantile(q)\<close>, linear interpolation between the two neighbours of
  position \<open>q * (n - 1)\<close> in the sorted values; NaN when there is no value.
\<close>

definition quantile :: "rat list \<Rightarrow> rat \<Rightarrow> rat option" where
  "quantile vals q =
     (if vals = [] then None
      else let s = sort vals;
               pos = q * of_nat (length s - 1);
               lo = nat \<lfloor>pos\<rfloor>;
               frac = pos - of_nat lo
           in Some (if lo + 1 < length s then s ! lo + (s ! (lo + 1) - s ! lo) * frac
                    else s ! (length s - 1)))"

definition series_min :: "rat list \<Rightarrow> rat option" where
  "series_min vals = (case vals of [] \<Rightarrow> None | v # vs \<Rightarrow> Some (fold min vs v))"

definition series_max :: "rat list \<Rightarrow> rat option" where
  "series_max vals = (case vals of [] \<Rightarrow> None | v # vs \<Rightarrow> Some (fold max vs v))"

text \<open>Comparisons with NaN are false.\<close>

fun nan_le :: "rat option \<Rightarrow> rat option \<Rightarrow> bool" where
  "nan_le (Some a) (Some b) = (a \<le> b)"
| "nan_le _ _ = False"

fun nan_lt :: "rat option \<Rightarrow> rat option \<Rightarrow> bool" where
  "nan_lt (Some a) (Some b) = (a < b)"
| "nan_lt _ _ = False"

fun nan_eq :: "rat option \<Rightarrow> rat option \<Rightarrow> bool" where
  "nan_eq (Some a) (Some b) = (a = b)"
| "nan_eq _ _ = False"

fun nan_mid :: "rat option \<Rightarrow> rat option \<Rightarrow> rat option" where
  "nan_mid (Some a) (Some b) = Some ((a + b) / 2)"
| "nan_mid _ _ = None"

text \<open>\<^verbatim>\<open>row['price'] * total\<close>: NaN when the price is.\<close>

definition nan_times :: "rat option \<Rightarrow> rat \<Rightarrow> rat option" where
  "nan_times p x = map_option (\<lambda>v. v * x) p"

text \<open>The sum of a column, NaN cells skipped.\<close>

definition nansum :: "rat option list \<Rightarrow> rat" where
  "nansum col = sum_list (List.map_filter (\<lambda>v. v) col)"

subsection \<open>\<^verbatim>\<open>apply_clustering_improved\<close> (lines 185-222)\<close>

record seg_row = product_row +
  quantity_sold :: rat
  stock_remaining :: rat
  segment :: segment

text \<open>
  The copy of a row with \<^verbatim>\<open>quantity_sold\<close>, \<^verbatim>\<open>stock_remaining\<close> (lines 194-195) and
  \<^verbatim>\<open>segment\<close> added.
\<close>

definition add_columns :: "product_row \<Rightarrow> segment \<Rightarrow> seg_row" where
  "add_columns r s =
     \<lparr> rid = rid r, name = name r, category = category r, price = price r,
       promotion = promotion r, total_sold = total_sold r, revenue = revenue r,
       total_stock_increased = total_stock_increased r, stock_revenue = stock_revenue r,
       stock_history = stock_history r,
       quantity_sold = total_sold r, stock_remaining = total_stock_increased r,
       segment = s \<rparr>"

definition categorize_price :: "rat option \<Rightarrow> rat option \<Rightarrow> rat option \<Rightarrow> segment" where
  "categorize_price price_25th price_75th p =
     (if p = None then Khong_xac_dinh
      else if nan_le p price_25th then Thap
      else if nan_le p price_75th then Trung_binh
      else Cao)"

definition apply_clustering_improved :: "product_row list \<Rightarrow> seg_row list" where
  "apply_clustering_improved df =
     (if df = [] then []
      else if 1 < length df \<and> 1 < length (remdups (prices df)) then
        (let price_25th = quantile (prices df) (33 / 100);
             price_75th = quantile (prices df) (67 / 100)
         in map (\<lambda>r. add_columns r (categorize_price price_25th price_75th (price r))) df)
      else map (\<lambda>r. add_columns r Trung_binh) df)"

subsection \<open>\<^verbatim>\<open>filter_by_date_range_optimized\<close> (lines 225-282)\<close>

text \<open>
  The test of the loop body, lines 241-247: the element is a dict with a \<^verbatim>\<open>date\<close> that
  parses and \<^verbatim>\<open>start_date <= entry_date <= end_date\<close>.
\<close>

definition in_window :: "date \<Rightarrow> date \<Rightarrow> entry \<Rightarrow> bool" where
  "in_window start_date end_date e =
     (case entry_date e of
        None \<Rightarrow> False
      | Some d \<Rightarrow> date_le start_date d \<and> date_le d end_date)"

definition filter_stock_history :: "date \<Rightarrow> date \<Rightarrow> entry list \<Rightarrow> entry list" where
  "filter_stock_history start_date end_date history =
     filter (in_window start_date end_date) history"

text \<open>
  \<^verbatim>\<open>max(0, float(entry.get('stock_decreased', 0)))\<close> under
  \<^verbatim>\<open>if isinstance(entry, dict)\<close>: an element that is not a dict adds nothing.
\<close>

fun sold_in :: "entry \<Rightarrow> rat" where
  "sold_in NotDict = 0"
| "sold_in (Dict _ dec _) = max 0 (get_or dec 0)"

fun increased_in :: "entry \<Rightarrow> rat" where
  "increased_in NotDict = 0"
| "increased_in (Dict _ _ inc) = max 0 (get_or inc 0)"

record metrics =
  m_quantity_sold :: rat
  m_stock_remaining :: rat
  m_revenue :: "rat option"
  m_stock_revenue :: "rat option"

definition recalculate_metrics :: "seg_row \<Rightarrow> metrics" where
  "recalculate_metrics row =
     (let total_sold = sum_list (map sold_in (stock_history row));
          total_stock_increased = sum_list (map increased_in (stock_history row))
      in \<lparr> m_quantity_sold = total_sold,
           m_stock_remaining = total_stock_increased,
           m_revenue = nan_times (price row) total_sold,
           m_stock_revenue = nan_times (price row) total_stock_increased \<rparr>)"

definition filter_row :: "date \<Rightarrow> date \<Rightarrow> seg_row \<Rightarrow> seg_row" where
  "filter_row start_date end_date r =
     (let filtered = r\<lparr> stock_history := filter_stock_history start_date end_date (stock_history r) \<rparr>;
          m = recalculate_metrics filtered
      in filtered\<lparr> quantity_sold := m_quantity_sold m,
                   stock_remaining := m_stock_remaining m,
                   revenue := m_revenue m,
                   stock_revenue := m_stock_revenue m \<rparr>)"

definition filter_by_date_range_optimized :: "seg_row list \<Rightarrow> date \<Rightarrow> date \<Rightarrow> seg_row list" where
  "filter_by_date_range_optimized df start_date end_date =
     (if df = [] then df else map (filter_row start_date end_date) df)"

subsection \<open>\<^verbatim>\<open>categorize_price_segment\<close> (lines 662-701)\<close>

definition classify_segment :: "rat option \<Rightarrow> rat option \<Rightarrow> rat option \<Rightarrow> segment" where
  "classify_segment price_25th price_75th p =
     (if p = None then Khong_xac_dinh
      else if nan_le p price_25th then Thap
      else if nan_le p price_75th then Trung_binh
      else Cao)"

definition set_segment :: "(rat option \<Rightarrow> segment) \<Rightarrow> seg_row list \<Rightarrow> seg_row list" where
  "set_segment f df = map (\<lambda>r. r\<lparr> segment := f (price r) \<rparr>) df"

definition categorize_price_segment :: "seg_row list \<Rightarrow> seg_row list" where
  "categorize_price_segment df =
     (if df = [] \<or> list_all (\<lambda>r. price r = None) df then set_segment (\<lambda>_. Khong_xac_dinh) df
      else
        (let price_25th = quantile (prices df) (1 / 4);
             price_75th = quantile (prices df) (3 / 4)
         in if nan_eq price_25th price_75th then
              (let price_min = series_min (prices df);
                   price_max = series_max (prices df)
               in if nan_eq price_min price_max then set_segment (\<lambda>_. Trung_binh) df
                  else (let price_mid = nan_mid price_min price_max
                        in set_segment (\<lambda>x. if nan_lt x price_mid then Thap else Cao) df))
            else set_segment (classify_segment price_25th price_75th) df))"

subsection \<open>\<^verbatim>\<open>calculate_segment_analysis\<close> (lines 708-749)\<close>

datatype display_mode = Ban_hang | Ton_kho

record segment_stat =
  seg :: segment
  seg_revenue :: rat
  seg_quantity_sold :: rat
  revenue_pct :: rat
  quantity_pct :: rat

text \<open>
  \<^verbatim>\<open>groupby('segment')\<close> has one group per label that occurs, in the sorted order of the
  labels: \<^verbatim>\<open>Cao\<close>, \<^verbatim>\<open>Khong xac dinh\<close>, \<^verbatim>\<open>Thap\<close>, \<^verbatim>\<open>Trung binh\<close>.
\<close>

definition group_keys :: "seg_row list \<Rightarrow> segment list" where
  "group_keys df = filter (\<lambda>k. k \<in> set (map segment df)) [Cao, Khong_xac_dinh, Thap, Trung_binh]"

text \<open>
  The aggregated frame \<^verbatim>\<open>segment_stats\<close> before the percentages: label, summed
  revenue column and summed quantity column of the mode.
\<close>

definition segment_sums :: "seg_row list \<Rightarrow> display_mode \<Rightarrow> (segment \<times> rat \<times> rat) list" where
  "segment_sums df mode =
     map (\<lambda>k. let grp = filter (\<lambda>r. segment r = k) df
              in (case mode of
                    Ban_hang \<Rightarrow> (k, nansum (map revenue grp), sum_list (map quantity_sold grp))
                  | Ton_kho \<Rightarrow> (k, nansum (map stock_revenue grp), sum_list (map stock_remaining grp))))
         (group_keys df)"

definition calculate_segment_analysis :: "seg_row list \<Rightarrow> display_mode \<Rightarrow> segment_stat list" where
  "calculate_segment_analysis df mode =
     (if df = [] then []
      else
        (let segment_stats = segment_sums df mode;
             total_revenue = sum_list (map (\<lambda>(k, rv, qt). rv) segment_stats);
             total_quantity = sum_list (map (\<lambda>(k, rv, qt). qt) segment_stats)
         in map (\<lambda>(k, rv, qt).
                  \<lparr> seg = k, seg_revenue = rv, seg_quantity_sold = qt,
                    revenue_pct = (if 0 < total_revenue then rv / total_revenue * 100 else 0),
                    quantity_pct = (if 0 < total_quantity then qt / total_quantity * 100 else 0) \<rparr>)
                segment_stats))"

subsection \<open>The script: lines 297-333 and 705-752\<close>

text \<open>
  The sidebar selections of lines 312-323; \<open>None\<close> is the choice \<^verbatim>\<open>Tat ca\<close> (all),
  which leaves the frame as it is.
\<close>

definition sidebar_filter ::
  "string option \<Rightarrow> segment option \<Rightarrow> string option \<Rightarrow> seg_row list \<Rightarrow> seg_row list" where
  "sidebar_filter selected_category selected_segment selected_product df =
     (let by_category = (case selected_category of
                           None \<Rightarrow> df | Some c \<Rightarrow> filter (\<lambda>r. category r = c) df);
          by_segment = (case selected_segment of
                          None \<Rightarrow> by_category | Some s \<Rightarrow> filter (\<lambda>r. segment r = s) by_category)
      in (case selected_product of
            None \<Rightarrow> by_segment | Some n \<Rightarrow> filter (\<lambda>r. name r = n) by_segment))"

text \<open>
  The frame is classified once by \<^verbatim>\<open>apply_clustering_improved\<close> (line 308), narrowed
  by the sidebar, recomputed for the date window (line 333), classified again by
  \<^verbatim>\<open>categorize_price_segment\<close> (line 705) and then rolled up (line 752).
\<close>

definition windowed_frame ::
  "product_row list \<Rightarrow> string option \<Rightarrow> segment option \<Rightarrow> string option \<Rightarrow> date \<Rightarrow> date
     \<Rightarrow> seg_row list" where
  "windowed_frame df selected_category selected_segment selected_product start_date end_date =
     filter_by_date_range_optimized
       (sidebar_filter selected_category selected_segment selected_product
          (apply_clustering_improved df))
       start_date end_date"

definition displayed_frame ::
  "product_row list \<Rightarrow> string option \<Rightarrow> segment option \<Rightarrow> string option \<Rightarrow> date \<Rightarrow> date
     \<Rightarrow> seg_row list" where
  "displayed_frame df selected_category selected_segment selected_product start_date end_date =
     categorize_price_segment
       (windowed_frame df selected_category selected_segment selected_product start_date end_date)"

subsection \<open>Sample data\<close>

text \<open>
  The two products of the specification's example, with a name and a category each, and
  three further documents: one with 51 movements on the same day, one with malformed
  movements, one with a fractional quantity.
\<close>

definition example_doc :: "string \<Rightarrow> string \<Rightarrow> rat \<Rightarrow> entry list \<Rightarrow> document" where
  "example_doc ident cat p history =
     \<lparr> doc_id = ident, doc_name = Some ident, doc_category = Some cat, doc_price = Some p,
       doc_promotion = None, doc_stock_history = Some history \<rparr>"

definition example_docs :: "document list" where
  "example_docs =
     [example_doc ''p1'' ''food'' 1000 [Dict (Some ''2025-03-10'') (Some 5) (Some 2)],
      example_doc ''p2'' ''drink'' 5000 [Dict (Some ''2025-04-01'') (Some 3) (Some 0)]]"

definition example_rows :: "product_row list" where
  "example_rows = fst (load_data_optimized example_docs)"

definition example_frame :: "seg_row list" where
  "example_frame = apply_clustering_improved example_rows"



definition fractional_doc :: document where
  "fractional_doc =
     example_doc ''p5'' ''food'' 1000 [Dict (Some ''2025-03-10'') (Some (1 / 2)) (Some 0)]"

text \<open>A frame row with the given price and tier and no movements.\<close>

definition priced_row :: "rat option \<Rightarrow> segment \<Rightarrow> seg_row" where
  "priced_row p s =
     \<lparr> rid = [], name = [], category = [], price = p, promotion = [], total_sold = 0,
       revenue = Some 0, total_stock_increased = 0, stock_revenue = Some 0, stock_history = [],
       quantity_sold = 0, stock_remaining = 0, segment = s \<rparr>"

text \<open>A frame with the given prices, the other columns empty.\<close>

definition frame_of_prices :: "rat option list \<Rightarrow> seg_row list" where
  "frame_of_prices ps = map (\<lambda>p. priced_row p Khong_xac_dinh) ps"


section \<open>Properties\<close>

subsection \<open>Arithmetic and list facts\<close>


lemma round0_of_int: "round0 (of_int k) = of_int k"
  by (simp add: round0_def)

lemma round0_numeral: "round0 (numeral n) = numeral n" "round0 0 = 0" "round0 1 = 1"
  using round0_of_int [of "numeral n"] round0_of_int [of 0] round0_of_int [of 1] by simp_all




lemma date_le_trans: "date_le a b \<Longrightarrow> date_le b c \<Longrightarrow> date_le a c"
  unfolding date_le_def by auto

subsection \<open>Facts about the load\<close>

lemma loaded_rows: "fst (load_data_optimized docs) = map load_row (pipeline docs)"
  by (simp add: load_data_optimized_def Let_def split: list.splits)



subsection \<open>Evaluation of the sample data\<close>

lemma strptime_0310: "strptime ''2025-03-10'' = Some (Date 2025 3 10)"
  by (simp add: strptime_def is_digit_def digit_val_def alts_m_def alts_d_def two_chars_def
      one_char_def after_dash_def make_date_def days_in_month_def)

lemma strptime_0401: "strptime ''2025-04-01'' = Some (Date 2025 4 1)"
  by (simp add: strptime_def is_digit_def digit_val_def alts_m_def alts_d_def two_chars_def
      one_char_def after_dash_def make_date_def days_in_month_def)


lemma example_rows_eval:
  "example_rows =
    [\<lparr> rid = ''p1'', name = ''p1'', category = ''food'', price = Some 1000,
       promotion = [], total_sold = 5, revenue = Some 5000,
       total_stock_increased = 2, stock_revenue = Some 2000,
       stock_history = [Dict (Some ''2025-03-10'') (Some 5) (Some 2)] \<rparr>,
     \<lparr> rid = ''p2'', name = ''p2'', category = ''drink'', price = Some 5000,
       promotion = [], total_sold = 3, revenue = Some 15000,
       total_stock_increased = 0, stock_revenue = Some 0,
       stock_history = [Dict (Some ''2025-04-01'') (Some 3) (Some 0)] \<rparr>]"
  by (simp add: example_rows_def example_docs_def example_doc_def load_data_optimized_def
      pipeline_def List.map_filter_simps match_stage_def project_stage_def load_row_def Let_def
      dates_of_def strptime_0310 strptime_0401 get_or_def round0_numeral split: list.splits)

lemma example_frame_eval:
  "example_frame =
    [\<lparr> rid = ''p1'', name = ''p1'', category = ''food'', price = Some 1000,
       promotion = [], total_sold = 5, revenue = Some 5000,
       total_stock_increased = 2, stock_revenue = Some 2000,
       stock_history = [Dict (Some ''2025-03-10'') (Some 5) (Some 2)],
       quantity_sold = 5, stock_remaining = 2, segment = Thap \<rparr>,
     \<lparr> rid = ''p2'', name = ''p2'', category = ''drink'', price = Some 5000,
       promotion = [], total_sold = 3, revenue = Some 15000,
       total_stock_increased = 0, stock_revenue = Some 0,
       stock_history = [Dict (Some ''2025-04-01'') (Some 3) (Some 0)],
       quantity_sold = 3, stock_remaining = 0, segment = Cao \<rparr>]"
  by (simp add: example_frame_def example_rows_eval apply_clustering_improved_def prices_def
      List.map_filter_simps quantile_def Let_def add_columns_def categorize_price_def)

subsection \<open>The caps on the movement list\<close>

text \<open>
  Claim C9. For every raw product record the stored movement list is exactly the first
  50 entries of the fetched list, which itself is the first 100 entries of the record's
  \<^verbatim>\<open>stock_history\<close> (empty when the field is missing); so every stored list has at most
  50 entries and entries 51 and beyond are never retained.
\<close>

theorem stored_movements_first_50:
  "stock_history (load_row (project_stage d p)) = take 50 (p_stock_history (project_stage d p))
   \<and> p_stock_history (project_stage d p)
       = take 100 (case doc_stock_history d of None \<Rightarrow> [] | Some h \<Rightarrow> h)
   \<and> length (p_stock_history (project_stage d p)) \<le> 100
   \<and> list_all (\<lambda>r. length (stock_history r) \<le> 50) (fst (load_data_optimized docs))"
  by (simp add: load_row_def project_stage_def Let_def loaded_rows list_all_iff)

subsection \<open>The first classification pass copies the lifetime totals\<close>

text \<open>
  Claim C10. \<^verbatim>\<open>apply_clustering_improved\<close> returns, for every product set, a copy whose
  rows carry \<^verbatim>\<open>quantity_sold\<close> equal to the lifetime \<^verbatim>\<open>total_sold\<close> and
  \<^verbatim>\<open>stock_remaining\<close> equal to the lifetime \<^verbatim>\<open>total_stock_increased\<close>, the columns
  of the load unchanged; the empty set is returned as it is.
\<close>

theorem clustering_copies_lifetime_totals:
  "apply_clustering_improved [] = []
   \<and> map quantity_sold (apply_clustering_improved df) = map total_sold df
   \<and> map stock_remaining (apply_clustering_improved df) = map total_stock_increased df
   \<and> map product_row.truncate (apply_clustering_improved df) = df"
  by (simp add: apply_clustering_improved_def add_columns_def Let_def product_row.truncate_def
      o_def map_idI)

subsection \<open>Totals are never negative\<close>


subsection \<open>Windows that hold no movement\<close>

lemma inverted_window: "\<not> date_le s e \<Longrightarrow> \<not> in_window s e x"
  by (auto simp: in_window_def split: option.splits dest: date_le_trans)

lemma filter_row_empty:
  assumes "filter_stock_history s e (stock_history r) = []" and "price r = Some p"
  shows "stock_history (filter_row s e r) = [] \<and> quantity_sold (filter_row s e r) = 0
         \<and> stock_remaining (filter_row s e r) = 0 \<and> revenue (filter_row s e r) = Some 0
         \<and> stock_revenue (filter_row s e r) = Some 0"
  using assms by (simp add: filter_row_def recalculate_metrics_def Let_def nan_times_def)

text \<open>
  Claim C8. For every frame of priced products and every date range that holds none of
  the products' movement dates, or whose start lies after its end, the window
  recomputation returns a frame of the same length in which every product has an empty
  movement list and \<^verbatim>\<open>quantity_sold\<close>, \<^verbatim>\<open>stock_remaining\<close>, \<^verbatim>\<open>revenue\<close> and
  \<^verbatim>\<open>stock_revenue\<close> all 0. The recomputation is a total function: no input makes it fail.
\<close>

theorem disjoint_window_all_zero:
  assumes priced: "list_all (\<lambda>r. price r \<noteq> None) df"
    and window: "\<not> date_le start_date end_date
                 \<or> list_all (\<lambda>r. list_all (\<lambda>x. \<not> in_window start_date end_date x) (stock_history r)) df"
  shows "length (filter_by_date_range_optimized df start_date end_date) = length df
         \<and> list_all (\<lambda>r. stock_history r = [] \<and> quantity_sold r = 0 \<and> stock_remaining r = 0
                         \<and> revenue r = Some 0 \<and> stock_revenue r = Some 0)
             (filter_by_date_range_optimized df start_date end_date)"
proof -
  have empty: "filter_stock_history start_date end_date (stock_history r) = []"
    if "r \<in> set df" for r
  proof -
    from window that
    have "list_all (\<lambda>x. \<not> in_window start_date end_date x) (stock_history r)"
      by (auto simp: list_all_iff inverted_window)
    then show ?thesis
      by (simp add: filter_stock_history_def list_all_iff)
  qed
  have "stock_history (filter_row start_date end_date r) = []
        \<and> quantity_sold (filter_row start_date end_date r) = 0
        \<and> stock_remaining (filter_row start_date end_date r) = 0
        \<and> revenue (filter_row start_date end_date r) = Some 0
        \<and> stock_revenue (filter_row start_date end_date r) = Some 0" if "r \<in> set df" for r
  proof -
    from priced that obtain p where "price r = Some p"
      by (auto simp: list_all_iff)
    with empty [OF that] show ?thesis
      by (rule filter_row_empty)
  qed
  then show ?thesis
    by (simp add: filter_by_date_range_optimized_def list_all_iff)
qed

theorem disjoint_window_all_zero_witness:
  "list_all (\<lambda>r. price r \<noteq> None) example_frame
   \<and> list_all (\<lambda>r. list_all (\<lambda>x. \<not> in_window (Date 2025 6 1) (Date 2025 6 30) x) (stock_history r))
        example_frame
   \<and> list_all (\<lambda>r. stock_history r = [] \<and> quantity_sold r = 0 \<and> stock_remaining r = 0
                   \<and> revenue r = Some 0 \<and> stock_revenue r = Some 0)
        (filter_by_date_range_optimized example_frame (Date 2025 6 1) (Date 2025 6 30))
   \<and> \<not> date_le (Date 2025 4 1) (Date 2025 3 1)
   \<and> list_all (\<lambda>r. stock_history r = [] \<and> quantity_sold r = 0 \<and> stock_remaining r = 0
                   \<and> revenue r = Some 0 \<and> stock_revenue r = Some 0)
        (filter_by_date_range_optimized example_frame (Date 2025 4 1) (Date 2025 3 1))"
proof -
  have priced: "list_all (\<lambda>r. price r \<noteq> None) example_frame"
    by (simp add: example_frame_eval)
  have outside: "list_all (\<lambda>r. list_all (\<lambda>x. \<not> in_window (Date 2025 6 1) (Date 2025 6 30) x)
                   (stock_history r)) example_frame"
    by (simp add: example_frame_eval in_window_def strptime_0310 strptime_0401 date_le_def)
  have inverted: "\<not> date_le (Date 2025 4 1) (Date 2025 3 1)"
    by (simp add: date_le_def)
  from disjoint_window_all_zero [OF priced disjI2 [OF outside]]
    disjoint_window_all_zero [OF priced disjI1 [OF inverted]]
    priced outside inverted
  show ?thesis by simp
qed

subsection \<open>Percentage shares of the rollup\<close>








subsection \<open>The classifier \<^verbatim>\<open>categorize_price_segment\<close>\<close>

lemma prices_empty_iff: "prices df = [] \<longleftrightarrow> list_all (\<lambda>r. price r = None) df"
  by (induction df) (auto simp: prices_def List.map_filter_simps split: option.splits)

lemma quantile_Some: "vals \<noteq> [] \<Longrightarrow> \<exists>v. quantile vals q = Some v"
  by (simp add: quantile_def Let_def)

lemma quantile_constant:
  assumes "set vals = {v}"
  shows "quantile vals q = Some v"
proof -
  from assms have ne: "vals \<noteq> []" by auto
  have elem: "sort vals ! k = v" if "k < length (sort vals)" for k
  proof -
    from that have "sort vals ! k \<in> set (sort vals)" by (rule nth_mem)
    with assms show ?thesis by simp
  qed
  define lo where "lo = nat \<lfloor>q * of_nat (length (sort vals) - 1)\<rfloor>"
  define frac where "frac = q * of_nat (length (sort vals) - 1) - of_nat lo"
  have unfolded: "quantile vals q =
          Some (if lo + 1 < length (sort vals)
                then sort vals ! lo + (sort vals ! (lo + 1) - sort vals ! lo) * frac
                else sort vals ! (length (sort vals) - 1))"
    using ne unfolding quantile_def Let_def lo_def frac_def by (simp only: if_False)
  from ne have last: "sort vals ! (length (sort vals) - 1) = v"
    by (intro elem) (cases vals, simp_all)
  show ?thesis
  proof (cases "lo + 1 < length (sort vals)")
    case True
    then have "sort vals ! lo = v" "sort vals ! (lo + 1) = v"
      by (simp_all add: elem)
    with True show ?thesis unfolding unfolded by simp
  next
    case False
    with last show ?thesis unfolding unfolded by simp
  qed
qed

lemma min_eq_max_constant:
  assumes "vals \<noteq> []" and "Min (set vals) = Max (set vals)"
  shows "set vals = {Min (set vals)}"
proof -
  have "x = Min (set vals)" if "x \<in> set vals" for x
  proof -
    from that have "Min (set vals) \<le> x" "x \<le> Max (set vals)" by simp_all
    with assms(2) show ?thesis by simp
  qed
  moreover from assms(1) have "Min (set vals) \<in> set vals" by simp
  ultimately show ?thesis by blast
qed

lemma series_min_Min: "vals \<noteq> [] \<Longrightarrow> series_min vals = Some (Min (set vals))"
  by (cases vals) (simp_all add: series_min_def Min.set_eq_fold [symmetric])

lemma series_max_Max: "vals \<noteq> [] \<Longrightarrow> series_max vals = Some (Max (set vals))"
  by (cases vals) (simp_all add: series_max_def Max.set_eq_fold [symmetric])

lemma length_set_segment: "length (set_segment f df) = length df"
  by (simp add: set_segment_def)

lemma nth_set_segment: "i < length df \<Longrightarrow> segment (set_segment f df ! i) = f (price (df ! i))"
  by (simp add: set_segment_def)

lemma list_all_set_segment: "list_all (\<lambda>r. segment r = t) (set_segment (\<lambda>_. t) df)"
  by (simp add: set_segment_def list_all_iff)

lemma length_categorize: "length (categorize_price_segment df) = length df"
  by (simp add: categorize_price_segment_def Let_def length_set_segment)

lemma categorize_all_missing:
  "list_all (\<lambda>r. price r = None) df
   \<Longrightarrow> categorize_price_segment df = set_segment (\<lambda>_. Khong_xac_dinh) df"
  by (simp add: categorize_price_segment_def)

lemma categorize_priced:
  assumes some: "\<not> list_all (\<lambda>r. price r = None) df"
    and p25: "quantile (prices df) (1 / 4) = Some a"
    and p75: "quantile (prices df) (3 / 4) = Some b"
  shows "categorize_price_segment df =
           (if a = b then
              (if Min (set (prices df)) = Max (set (prices df)) then set_segment (\<lambda>_. Trung_binh) df
               else set_segment
                      (\<lambda>x. if nan_lt x (Some ((Min (set (prices df)) + Max (set (prices df))) / 2))
                           then Thap else Cao) df)
            else set_segment (classify_segment (Some a) (Some b)) df)"
proof -
  from some have ne: "prices df \<noteq> []" and "df \<noteq> []"
    by (auto simp: prices_empty_iff)
  with some show ?thesis
    by (simp add: categorize_price_segment_def Let_def p25 p75 series_min_Min series_max_Max)
qed

text \<open>
  Claim C5. \<^verbatim>\<open>categorize_price_segment\<close> tags every row of every frame (it is total and
  keeps the length). With the 25th and 75th percentile and the minimum and maximum taken
  over the prices that are present:
  \<^item> if every price is missing, every product is \<^verbatim>\<open>Khong xac dinh\<close> (undefined);
  \<^item> otherwise both percentiles exist, and if they differ, a product with price at most
    the 25th percentile is \<^verbatim>\<open>Thap\<close> (low), above it and at most the 75th percentile
    \<^verbatim>\<open>Trung binh\<close> (medium), above the 75th percentile \<^verbatim>\<open>Cao\<close> (high);
  \<^item> if the percentiles are equal and minimum and maximum differ, a product below the
    midpoint of minimum and maximum is low, one at or above it is high, and no product is
    medium;
  \<^item> if minimum and maximum are equal, every product is medium; so is a single priced
    product.
\<close>

theorem classifier_branches:
  "length (categorize_price_segment df) = length df
   \<and> (list_all (\<lambda>r. price r = None) df
        \<longrightarrow> list_all (\<lambda>r. segment r = Khong_xac_dinh) (categorize_price_segment df))
   \<and> (\<not> list_all (\<lambda>r. price r = None) df
        \<longrightarrow> (\<exists>a b. quantile (prices df) (1 / 4) = Some a \<and> quantile (prices df) (3 / 4) = Some b))
   \<and> (\<not> list_all (\<lambda>r. price r = None) df \<and> quantile (prices df) (1 / 4) = Some a
        \<and> quantile (prices df) (3 / 4) = Some b \<and> a \<noteq> b
        \<and> i < length df \<and> price (df ! i) = Some x
        \<longrightarrow> segment (categorize_price_segment df ! i)
              = (if x \<le> a then Thap else if x \<le> b then Trung_binh else Cao))
   \<and> (\<not> list_all (\<lambda>r. price r = None) df
        \<and> quantile (prices df) (1 / 4) = quantile (prices df) (3 / 4)
        \<and> Min (set (prices df)) \<noteq> Max (set (prices df))
        \<longrightarrow> list_all (\<lambda>r. segment r \<noteq> Trung_binh) (categorize_price_segment df)
            \<and> (i < length df \<and> price (df ! i) = Some x
                 \<longrightarrow> segment (categorize_price_segment df ! i)
                       = (if x < (Min (set (prices df)) + Max (set (prices df))) / 2
                          then Thap else Cao)))
   \<and> (\<not> list_all (\<lambda>r. price r = None) df
        \<and> Min (set (prices df)) = Max (set (prices df))
        \<longrightarrow> list_all (\<lambda>r. segment r = Trung_binh) (categorize_price_segment df))
   \<and> (price r \<noteq> None \<longrightarrow> map segment (categorize_price_segment [r]) = [Trung_binh])"
proof -
  have missing: "list_all (\<lambda>r. segment r = Khong_xac_dinh) (categorize_price_segment df)"
    if "list_all (\<lambda>r. price r = None) df"
    using that by (simp add: categorize_all_missing list_all_set_segment)
  have exist: "\<exists>a b. quantile (prices df) (1 / 4) = Some a \<and> quantile (prices df) (3 / 4) = Some b"
    if "\<not> list_all (\<lambda>r. price r = None) df"
    using that quantile_Some [of "prices df"] by (simp add: prices_empty_iff)
  have distinct: "segment (categorize_price_segment df ! i)
              = (if x \<le> a then Thap else if x \<le> b then Trung_binh else Cao)"
    if "\<not> list_all (\<lambda>r. price r = None) df" "quantile (prices df) (1 / 4) = Some a"
       "quantile (prices df) (3 / 4) = Some b" "a \<noteq> b" "i < length df" "price (df ! i) = Some x"
    using that by (simp add: categorize_priced nth_set_segment classify_segment_def)
  have split: "list_all (\<lambda>r. segment r \<noteq> Trung_binh) (categorize_price_segment df)
            \<and> (i < length df \<and> price (df ! i) = Some x
                 \<longrightarrow> segment (categorize_price_segment df ! i)
                       = (if x < (Min (set (prices df)) + Max (set (prices df))) / 2
                          then Thap else Cao))"
    if some: "\<not> list_all (\<lambda>r. price r = None) df"
      and eq: "quantile (prices df) (1 / 4) = quantile (prices df) (3 / 4)"
      and ne: "Min (set (prices df)) \<noteq> Max (set (prices df))"
  proof -
    from exist [OF some] eq obtain a where
      "quantile (prices df) (1 / 4) = Some a" "quantile (prices df) (3 / 4) = Some a"
      by auto
    from categorize_priced [OF some this] ne
    have "categorize_price_segment df = set_segment
                      (\<lambda>x. if nan_lt x (Some ((Min (set (prices df)) + Max (set (prices df))) / 2))
                           then Thap else Cao) df"
      by simp
    then show ?thesis
      by (simp add: nth_set_segment) (simp add: set_segment_def list_all_iff)
  qed
  have same: "list_all (\<lambda>r. segment r = Trung_binh) (categorize_price_segment df)"
    if some: "\<not> list_all (\<lambda>r. price r = None) df"
      and mm: "Min (set (prices df)) = Max (set (prices df))"
  proof -
    from some have "prices df \<noteq> []" by (simp add: prices_empty_iff)
    then have "set (prices df) = {Min (set (prices df))}"
      using mm by (rule min_eq_max_constant)
    then have "quantile (prices df) (1 / 4) = Some (Min (set (prices df)))"
      "quantile (prices df) (3 / 4) = Some (Min (set (prices df)))"
      by (rule quantile_constant)+
    from categorize_priced [OF some this] mm
    show ?thesis by (simp add: list_all_set_segment)
  qed
  have single: "map segment (categorize_price_segment [r]) = [Trung_binh]" if "price r \<noteq> None"
    using that
    by (auto simp: categorize_price_segment_def Let_def prices_def List.map_filter_simps
        quantile_def series_min_def series_max_def set_segment_def)
  from missing exist distinct split same single show ?thesis
    by (simp add: length_categorize)
qed

lemma spread_frame_eval:
  "prices (frame_of_prices [Some 1000, Some 2000, Some 3000, Some 4000, Some 5000])
     = [1000, 2000, 3000, 4000, 5000]"
  "quantile [1000, 2000, 3000, 4000, 5000] (1 / 4) = Some 2000"
  "quantile [1000, 2000, 3000, 4000, 5000] (3 / 4) = Some 4000"
  by (simp_all add: frame_of_prices_def priced_row_def prices_def List.map_filter_simps
      quantile_def Let_def)

lemma skewed_frame_eval:
  "prices (frame_of_prices [Some 1000, Some 1000, Some 1000, Some 1000, Some 9000])
     = [1000, 1000, 1000, 1000, 9000]"
  "quantile [1000, 1000, 1000, 1000, 9000] (1 / 4) = Some 1000"
  "quantile [1000, 1000, 1000, 1000, 9000] (3 / 4) = Some 1000"
  by (simp_all add: frame_of_prices_def priced_row_def prices_def List.map_filter_simps
      quantile_def Let_def)

theorem classifier_branches_witness:
  "list_all (\<lambda>r. price r = None) (frame_of_prices [None, None])
   \<and> list_all (\<lambda>r. segment r = Khong_xac_dinh)
        (categorize_price_segment (frame_of_prices [None, None]))
   \<and> \<not> list_all (\<lambda>r. price r = None)
          (frame_of_prices [Some 1000, Some 2000, Some 3000, Some 4000, Some 5000])
   \<and> quantile (prices (frame_of_prices [Some 1000, Some 2000, Some 3000, Some 4000, Some 5000]))
        (1 / 4) = Some 2000
   \<and> quantile (prices (frame_of_prices [Some 1000, Some 2000, Some 3000, Some 4000, Some 5000]))
        (3 / 4) = Some 4000
   \<and> map segment
        (categorize_price_segment
           (frame_of_prices [Some 1000, Some 2000, Some 3000, Some 4000, Some 5000]))
       = [Thap, Thap, Trung_binh, Trung_binh, Cao]
   \<and> quantile (prices (frame_of_prices [Some 1000, Some 1000, Some 1000, Some 1000, Some 9000]))
        (1 / 4)
       = quantile (prices (frame_of_prices [Some 1000, Some 1000, Some 1000, Some 1000, Some 9000]))
           (3 / 4)
   \<and> Min (set (prices (frame_of_prices [Some 1000, Some 1000, Some 1000, Some 1000, Some 9000])))
       \<noteq> Max (set (prices (frame_of_prices [Some 1000, Some 1000, Some 1000, Some 1000, Some 9000])))
   \<and> list_all (\<lambda>r. segment r \<noteq> Trung_binh)
        (categorize_price_segment
           (frame_of_prices [Some 1000, Some 1000, Some 1000, Some 1000, Some 9000]))
   \<and> segment (categorize_price_segment
                (frame_of_prices [Some 1000, Some 1000, Some 1000, Some 1000, Some 9000]) ! 0) = Thap
   \<and> segment (categorize_price_segment
                (frame_of_prices [Some 1000, Some 1000, Some 1000, Some 1000, Some 9000]) ! 4) = Cao
   \<and> Min (set (prices (frame_of_prices [Some 1000, Some 1000])))
       = Max (set (prices (frame_of_prices [Some 1000, Some 1000])))
   \<and> list_all (\<lambda>r. segment r = Trung_binh)
        (categorize_price_segment (frame_of_prices [Some 1000, Some 1000]))
   \<and> map segment (categorize_price_segment [priced_row (Some 1000) Cao]) = [Trung_binh]"
proof -
  let ?missing = "frame_of_prices [None, None]"
  let ?spread = "frame_of_prices [Some 1000, Some 2000, Some 3000, Some 4000, Some 5000]"
  let ?skewed = "frame_of_prices [Some 1000, Some 1000, Some 1000, Some 1000, Some 9000]"
  let ?same = "frame_of_prices [Some 1000, Some 1000]"
  have m: "list_all (\<lambda>r. price r = None) ?missing"
    by (simp add: frame_of_prices_def priced_row_def)
  have s0: "\<not> list_all (\<lambda>r. price r = None) ?spread"
    and len: "length ?spread = 5"
    and px: "price (?spread ! 0) = Some 1000" "price (?spread ! 1) = Some 2000"
      "price (?spread ! 2) = Some 3000" "price (?spread ! 3) = Some 4000"
      "price (?spread ! 4) = Some 5000"
    by (simp_all add: frame_of_prices_def priced_row_def)
  have q: "quantile (prices ?spread) (1 / 4) = Some 2000"
    "quantile (prices ?spread) (3 / 4) = Some 4000"
    by (simp_all add: spread_frame_eval)
  have k0: "\<not> list_all (\<lambda>r. price r = None) ?skewed"
    and klen: "length ?skewed = 5"
    and kx: "price (?skewed ! 0) = Some 1000" "price (?skewed ! 4) = Some 9000"
    by (simp_all add: frame_of_prices_def priced_row_def)
  have kq: "quantile (prices ?skewed) (1 / 4) = quantile (prices ?skewed) (3 / 4)"
    by (simp add: skewed_frame_eval)
  have kmin: "Min (set (prices ?skewed)) = 1000" and kmax: "Max (set (prices ?skewed)) = 9000"
    by (simp_all add: skewed_frame_eval)
  have e0: "\<not> list_all (\<lambda>r. price r = None) ?same"
    and emm: "Min (set (prices ?same)) = Max (set (prices ?same))"
    by (simp_all add: frame_of_prices_def priced_row_def prices_def List.map_filter_simps)
  have one: "price (priced_row (Some 1000) Cao) \<noteq> None"
    by (simp add: priced_row_def)
  note missing = classifier_branches [of ?missing]
  note sp = classifier_branches [of ?spread 2000 4000]
  note sk = classifier_branches [of ?skewed _ _ _ _ "priced_row (Some 1000) Cao"]
  note sm = classifier_branches [of ?same]
  have t0: "segment (categorize_price_segment ?spread ! 0) = Thap"
    using sp [of 0 1000] s0 q len px by simp
  have t1: "segment (categorize_price_segment ?spread ! 1) = Thap"
    using sp [of 1 2000] s0 q len px by simp
  have t2: "segment (categorize_price_segment ?spread ! 2) = Trung_binh"
    using sp [of 2 3000] s0 q len px by simp
  have t3: "segment (categorize_price_segment ?spread ! 3) = Trung_binh"
    using sp [of 3 4000] s0 q len px by simp
  have t4: "segment (categorize_price_segment ?spread ! 4) = Cao"
    using sp [of 4 5000] s0 q len px by simp
  have l5: "length (categorize_price_segment ?spread) = 5"
    using sp [of 0 0] len by simp
  have spread: "map segment (categorize_price_segment ?spread)
                  = [Thap, Thap, Trung_binh, Trung_binh, Cao]"
    using l5 t0 t1 t2 t3 t4
    by (auto simp: list_eq_iff_nth_eq less_Suc_eq numeral_eq_Suc)
  have kne: "Min (set (prices ?skewed)) \<noteq> Max (set (prices ?skewed))"
    by (simp add: kmin kmax)
  have skew_all: "list_all (\<lambda>r. segment r \<noteq> Trung_binh) (categorize_price_segment ?skewed)"
    using sk [of _ _ 0 0] k0 kq kne by blast
  have skew0: "segment (categorize_price_segment ?skewed ! 0) = Thap"
    using sk [of _ _ 0 1000] k0 kq kne klen kx by (simp add: kmin kmax)
  have skew4: "segment (categorize_price_segment ?skewed ! 4) = Cao"
    using sk [of _ _ 4 9000] k0 kq kne klen kx by (simp add: kmin kmax)
  have single: "map segment (categorize_price_segment [priced_row (Some 1000) Cao]) = [Trung_binh]"
    using sk [of _ _ 0 0] one by blast
  have same: "list_all (\<lambda>r. segment r = Trung_binh) (categorize_price_segment ?same)"
    using sm e0 emm by blast
  have miss: "list_all (\<lambda>r. segment r = Khong_xac_dinh) (categorize_price_segment ?missing)"
    using missing m by blast
  from m miss s0 q spread kq kne skew_all skew0 skew4 emm same single
  show ?thesis by simp
qed

subsection \<open>What the window recomputation leaves alone\<close>

lemma filter_row_frame:
  "segment (filter_row s e r) = segment r" "price (filter_row s e r) = price r"
  "rid (filter_row s e r) = rid r" "name (filter_row s e r) = name r"
  "category (filter_row s e r) = category r" "promotion (filter_row s e r) = promotion r"
  "total_sold (filter_row s e r) = total_sold r"
  "total_stock_increased (filter_row s e r) = total_stock_increased r"
  by (simp_all add: filter_row_def Let_def)

lemma filter_by_date_keeps:
  "map segment (filter_by_date_range_optimized df s e) = map segment df"
  "map price (filter_by_date_range_optimized df s e) = map price df"
  "map total_sold (filter_by_date_range_optimized df s e) = map total_sold df"
  "map total_stock_increased (filter_by_date_range_optimized df s e) = map total_stock_increased df"
  by (simp_all add: filter_by_date_range_optimized_def filter_row_frame o_def)

lemma prices_of_column: "prices df = List.map_filter (\<lambda>v. v) (map price df)"
  by (induction df) (simp_all add: prices_def List.map_filter_simps split: option.splits)

lemma segments_of_set_segment: "map segment (set_segment f df) = map f (map price df)"
  by (simp add: set_segment_def o_def)

lemma all_missing_of_column:
  "list_all (\<lambda>r. price r = None) df = list_all (\<lambda>v. v = None) (map price df)"
  by (simp add: list_all_iff)

text \<open>The tiers that \<^verbatim>\<open>categorize_price_segment\<close> assigns depend on the price column only.\<close>

lemma categorize_depends_on_prices:
  assumes "map price df1 = map price df2"
  shows "map segment (categorize_price_segment df1) = map segment (categorize_price_segment df2)"
proof -
  from assms have p: "prices df1 = prices df2"
    by (simp add: prices_of_column)
  from assms have e: "(df1 = []) = (df2 = [])"
    by (metis map_is_Nil_conv)
  from assms have m: "list_all (\<lambda>r. price r = None) df1 = list_all (\<lambda>r. price r = None) df2"
    by (simp add: all_missing_of_column)
  have s: "map segment (set_segment f df1) = map segment (set_segment f df2)" for f
    using assms by (simp add: segments_of_set_segment)
  show ?thesis
    unfolding categorize_price_segment_def Let_def p e m
    by (simp add: s)
qed

text \<open>
  Claim C2, as the code has it. The date-window recomputation itself changes no tier:
  right after it every product still has the tier that \<^verbatim>\<open>apply_clustering_improved\<close>
  assigned over the unfiltered set (and its price and lifetime totals). That pass is not
  the only one: the script then runs \<^verbatim>\<open>categorize_price_segment\<close> on the filtered
  frame, so the tier that is displayed and rolled up is the one computed from the prices
  of the rows left by the sidebar selections, whatever the date window.
\<close>

theorem window_keeps_tier_then_reclassified:
  "map segment (filter_by_date_range_optimized df start_date end_date) = map segment df
   \<and> map price (filter_by_date_range_optimized df start_date end_date) = map price df
   \<and> map total_sold (filter_by_date_range_optimized df start_date end_date) = map total_sold df
   \<and> map total_stock_increased (filter_by_date_range_optimized df start_date end_date)
       = map total_stock_increased df
   \<and> map segment (windowed_frame loaded sel_category sel_segment sel_product start_date end_date)
       = map segment (sidebar_filter sel_category sel_segment sel_product
                        (apply_clustering_improved loaded))
   \<and> map segment (displayed_frame loaded sel_category sel_segment sel_product start_date end_date)
       = map segment (categorize_price_segment
                        (sidebar_filter sel_category sel_segment sel_product
                           (apply_clustering_improved loaded)))"
proof -
  have "map segment (displayed_frame loaded sel_category sel_segment sel_product
                       start_date end_date)
        = map segment (categorize_price_segment
                         (sidebar_filter sel_category sel_segment sel_product
                            (apply_clustering_improved loaded)))"
    unfolding displayed_frame_def windowed_frame_def
    by (rule categorize_depends_on_prices) (rule filter_by_date_keeps)
  then show ?thesis
    by (simp add: windowed_frame_def filter_by_date_keeps)
qed

text \<open>
  The claim as stated fails on the sample data: with the category \<^verbatim>\<open>drink\<close> selected,
  product \<^verbatim>\<open>p2\<close> was tagged \<^verbatim>\<open>Cao\<close> by the pass over the unfiltered set and is displayed
  as \<^verbatim>\<open>Trung binh\<close>, the tier recomputed from the one filtered row.
\<close>

theorem tier_recomputed_counterexample:
  "map segment (sidebar_filter (Some ''drink'') None None (apply_clustering_improved example_rows))
     = [Cao]
   \<and> map segment (windowed_frame example_rows (Some ''drink'') None None
                     (Date 2025 4 1) (Date 2025 4 1))
     = [Cao]
   \<and> map segment (displayed_frame example_rows (Some ''drink'') None None
                     (Date 2025 4 1) (Date 2025 4 1))
     = [Trung_binh]"
  by (simp add: displayed_frame_def windowed_frame_def sidebar_filter_def
      example_frame_def [symmetric] example_frame_eval filter_by_date_range_optimized_def
      filter_row_def Let_def categorize_price_segment_def prices_def List.map_filter_simps
      quantile_def series_min_def series_max_def set_segment_def)

subsection \<open>The rows of the rollup\<close>

lemma segment_universe: "set [Cao, Khong_xac_dinh, Thap, Trung_binh] = UNIV"
proof -
  have "k \<in> set [Cao, Khong_xac_dinh, Thap, Trung_binh]" for k
    by (cases k) simp_all
  then show ?thesis by blast
qed

lemma analysis_keys: "map seg (calculate_segment_analysis df mode) = group_keys df"
proof (cases "df = []")
  case True
  then show ?thesis by (simp add: calculate_segment_analysis_def group_keys_def)
next
  case False
  then show ?thesis
    by (simp add: calculate_segment_analysis_def segment_sums_def Let_def o_def
        case_prod_unfold display_mode.case_distrib map_idI split: display_mode.split)
qed

text \<open>
  Claim C3, as the code has it. For every product set with tiers assigned the rollup
  returns exactly one row for each tier that occurs in the set and none for a tier that
  does not occur: no zero-valued row is synthesized. The rows come in the fixed order of
  the sorted labels (\<^verbatim>\<open>Cao\<close>, \<^verbatim>\<open>Khong xac dinh\<close>, \<^verbatim>\<open>Thap\<close>, \<^verbatim>\<open>Trung binh\<close>), so
  there are at most four of them, and the empty set gives the empty table.
\<close>

theorem rollup_rows_are_tiers_present:
  "map seg (calculate_segment_analysis df mode)
     = filter (\<lambda>k. k \<in> segment ` set df) [Cao, Khong_xac_dinh, Thap, Trung_binh]
   \<and> set (map seg (calculate_segment_analysis df mode)) = segment ` set df
   \<and> distinct (map seg (calculate_segment_analysis df mode))
   \<and> length (calculate_segment_analysis df mode) \<le> 4
   \<and> calculate_segment_analysis [] mode = []"
proof -
  have keys: "map seg (calculate_segment_analysis df mode)
                = filter (\<lambda>k. k \<in> segment ` set df) [Cao, Khong_xac_dinh, Thap, Trung_binh]"
    by (simp add: analysis_keys group_keys_def)
  have "set (filter (\<lambda>k. k \<in> segment ` set df) [Cao, Khong_xac_dinh, Thap, Trung_binh])
          = segment ` set df"
    unfolding set_filter segment_universe by blast
  with keys have present: "set (map seg (calculate_segment_analysis df mode)) = segment ` set df"
    by simp
  have dist: "distinct (map seg (calculate_segment_analysis df mode))"
    unfolding keys by (rule distinct_filter) simp
  have "length (map seg (calculate_segment_analysis df mode))
          \<le> length [Cao, Khong_xac_dinh, Thap, Trung_binh]"
    unfolding keys by (rule length_filter_le)
  then have len: "length (calculate_segment_analysis df mode) \<le> 4"
    by simp
  have "calculate_segment_analysis [] mode = []"
    by (simp add: calculate_segment_analysis_def)
  with keys present dist len show ?thesis by simp
qed

text \<open>
  The claim as stated fails on the sample data: with the category \<^verbatim>\<open>drink\<close> selected the
  displayed frame holds one product of tier \<^verbatim>\<open>Trung binh\<close>, and the rollup has that one
  row, not three.
\<close>

theorem rollup_single_row_counterexample:
  "calculate_segment_analysis
     (displayed_frame example_rows (Some ''drink'') None None (Date 2025 4 1) (Date 2025 4 1))
     Ban_hang
   = [\<lparr> seg = Trung_binh, seg_revenue = 15000, seg_quantity_sold = 3, revenue_pct = 100,
        quantity_pct = 100 \<rparr>]"
  by (simp add: displayed_frame_def windowed_frame_def sidebar_filter_def
      example_frame_def [symmetric] example_frame_eval filter_by_date_range_optimized_def
      filter_row_def filter_stock_history_def in_window_def strptime_0401 date_le_def
      recalculate_metrics_def nan_times_def get_or_def
      Let_def categorize_price_segment_def prices_def List.map_filter_simps
      quantile_def series_min_def series_max_def set_segment_def
      calculate_segment_analysis_def segment_sums_def group_keys_def nansum_def)

subsection \<open>Lifetime totals against a window that holds every movement\<close>














text \<open>
  Two further ways in which the recomputed value leaves the lifetime one: a fractional
  quantity (the load rounds one half to 0, the recomputation keeps it) and a movement
  whose date does not parse (counted by the pipeline, dropped by the window filter).
\<close>

lemma round0_half: "round0 (1 / 2) = 0"
proof -
  have "\<lfloor>1 / 2 :: rat\<rfloor> = 0"
    by (rule floor_unique) simp_all
  then show ?thesis
    by (simp add: round0_def)
qed

lemma fractional_quantity_not_rounded:
  "map total_sold (fst (load_data_optimized [fractional_doc])) = [0]
   \<and> map quantity_sold (windowed_frame (fst (load_data_optimized [fractional_doc]))
                           None None None (Date 2025 3 10) (Date 2025 3 10)) = [1 / 2]"
  by (simp add: loaded_rows fractional_doc_def example_doc_def pipeline_def
      List.map_filter_simps match_stage_def project_stage_def load_row_def Let_def get_or_def
      round0_numeral round0_half windowed_frame_def sidebar_filter_def
      apply_clustering_improved_def add_columns_def filter_by_date_range_optimized_def
      filter_row_def filter_stock_history_def in_window_def strptime_0310 date_le_def
      recalculate_metrics_def nan_times_def)

subsection \<open>Malformed movement entries\<close>





text \<open>
  \<^verbatim>\<open>strptime\<close> with \<^verbatim>\<open>%Y-%m-%d\<close> is not strict about padding: a month or day of one
  digit parses, a day that the month does not have does not.
\<close>

lemma strptime_unpadded: "strptime ''2025-3-5'' = Some (Date 2025 3 5)"
  by (simp add: strptime_def is_digit_def digit_val_def alts_m_def alts_d_def two_chars_def
      one_char_def after_dash_def make_date_def days_in_month_def)

lemma strptime_no_such_day: "strptime ''2025-02-30'' = None"
  by (simp add: strptime_def is_digit_def digit_val_def alts_m_def alts_d_def two_chars_def
      one_char_def after_dash_def make_date_def days_in_month_def is_leap_def)

subsection \<open>The worked example of the specification\<close>

text \<open>
  Two products priced 1000 and 5000 with one movement each: lifetime \<^verbatim>\<open>total_sold\<close> 5
  and 3, observed dates from 10 March to 1 April 2025, and the window of 1 April alone
  gives \<^verbatim>\<open>quantity_sold\<close> 0 and 3.
\<close>

lemma worked_example:
  "map total_sold (fst (load_data_optimized example_docs)) = [5, 3]
   \<and> snd (load_data_optimized example_docs) = (Date 2025 3 10, Date 2025 4 1)
   \<and> map quantity_sold (windowed_frame example_rows None None None (Date 2025 4 1) (Date 2025 4 1))
       = [0, 3]"
proof -
  have dates: "snd (load_data_optimized example_docs) = (Date 2025 3 10, Date 2025 4 1)"
    by (simp add: example_docs_def example_doc_def load_data_optimized_def pipeline_def
        List.map_filter_simps match_stage_def project_stage_def Let_def dates_of_def
        strptime_0310 strptime_0401 date_le_def)
  have window: "map quantity_sold
                  (windowed_frame example_rows None None None (Date 2025 4 1) (Date 2025 4 1))
                = [0, 3]"
    by (simp add: windowed_frame_def sidebar_filter_def example_frame_def [symmetric]
        example_frame_eval filter_by_date_range_optimized_def filter_row_def
        filter_stock_history_def in_window_def strptime_0310 strptime_0401 date_le_def
        recalculate_metrics_def Let_def get_or_def)
  from dates window show ?thesis
    by (simp add: example_rows_def [symmetric] example_rows_eval)
qed

end
